theory Spec2Isabelle
  imports Main "HOL-Library.Sublist" "HOL-Library.Word"
begin

section \<open>Qt values used by the widgets\<close>

text \<open>
  A \<open>QString\<close> is modelled as a \<open>string\<close> (a list of characters). The operations
  below are the ones the source calls: \<open>isEmpty\<close>, \<open>contains\<close>, \<open>split\<close>,
  \<open>remove\<close> and \<open>trimmed\<close>.
\<close>

definition isEmpty :: "string \<Rightarrow> bool" where
  "isEmpty s = (s = [])"

text \<open>
  \<open>QString::contains(str)\<close>: some position of the string starts an occurrence of
  \<open>str\<close>.
\<close>

fun contains :: "string \<Rightarrow> string \<Rightarrow> bool" where
  "contains [] sub = (sub = [])"
| "contains (c # cs) sub = (prefix sub (c # cs) \<or> contains cs sub)"

text \<open>
  \<open>QString::split(sep)\<close> with the default \<open>KeepEmptyParts\<close>, for a separator of at
  least one character \<open>d # ds\<close>: the string is scanned from the left; every occurrence
  of the separator closes the current part, the scan goes on behind the occurrence, and
  what is left at the end is the last part. So the result always has at least one
  element, also for the empty string. \<open>splitFrom\<close> carries the characters of the
  current part in reverse.
\<close>

function splitFrom :: "char \<Rightarrow> string \<Rightarrow> string \<Rightarrow> string \<Rightarrow> string list" where
  "splitFrom d ds cur [] = [rev cur]"
| "splitFrom d ds cur (c # cs) =
     (if prefix (d # ds) (c # cs)
      then rev cur # splitFrom d ds [] (drop (length ds) cs)
      else splitFrom d ds (c # cur) cs)"
  by pat_completeness auto
termination
  by (relation "measure (\<lambda>(d, ds, cur, s). length s)") auto

text \<open>
  The source only splits on the literals \<open>"]:"\<close> and \<open>":"\<close>; the empty separator,
  for which Qt splits between all characters, is not needed and is given the unsplit
  string.
\<close>

definition split :: "string \<Rightarrow> string \<Rightarrow> string list" where
  "split s sep = (case sep of [] \<Rightarrow> [s] | d # ds \<Rightarrow> splitFrom d ds [] s)"

text \<open>
  \<open>QString::remove(str)\<close> for a one-character \<open>str\<close> (the source removes
  \<open>"["\<close>): every occurrence of the character is dropped.
\<close>

definition remove :: "string \<Rightarrow> char \<Rightarrow> string" where
  "remove s c = filter (\<lambda>x. x \<noteq> c) s"

text \<open>
  \<open>QString::trimmed()\<close>: white space (of the ASCII characters: tab, line feed,
  vertical tab, form feed, carriage return, space) is removed from both ends.
\<close>

definition isSpace :: "char \<Rightarrow> bool" where
  "isSpace c = (c \<in> set [CHR 0x09, CHR 0x0A, CHR 0x0B, CHR 0x0C, CHR 0x0D, CHR '' ''])"

definition trimmed :: "string \<Rightarrow> string" where
  "trimmed s = rev (dropWhile isSpace (rev (dropWhile isSpace s)))"

text \<open>
  \<open>NMStringMap\<close> is a \<open>QMap<QString, QString>\<close>: a finite map from strings to
  strings. \<open>insert\<close> replaces the value of a key that is present, \<open>remove\<close> deletes
  the key, and reading a key of a const map with \<open>[]\<close> gives the empty string when
  the key is absent.
\<close>

type_synonym NMStringMap = "string \<rightharpoonup> string"

definition map_value :: "NMStringMap \<Rightarrow> string \<Rightarrow> string" where
  "map_value m k = (case m k of None \<Rightarrow> [] | Some v \<Rightarrow> v)"

definition map_insert :: "NMStringMap \<Rightarrow> string \<Rightarrow> string \<Rightarrow> NMStringMap" where
  "map_insert m k v = m(k \<mapsto> v)"

definition map_remove :: "NMStringMap \<Rightarrow> string \<Rightarrow> NMStringMap" where
  "map_remove m k = m(k := None)"

section \<open>The WireGuard setting widget\<close>

text \<open>
  \<open>QValidator::State\<close>, and a validator as the function from the text it is given to
  the state it answers. The validators of IP addresses, IP lists and keys
  (\<open>SimpleIpV4AddressValidator\<close>, \<open>SimpleIpV6AddressValidator\<close>,
  \<open>SimpleIpListValidator\<close>, \<open>WireGuardKeyValidator\<close>) are not part of this source:
  they are parameters of the model. The widget compares every answer with
  \<open>Acceptable\<close> only. \<open>validate\<close> is handed a copy of the field's text and a
  cursor position by reference; a validator is taken to answer from the text alone and
  to leave the copy as it is.
\<close>

datatype validator_state = Invalid | Intermediate | Acceptable

type_synonym validator = "string \<Rightarrow> validator_state"

record validators =
  ip4WithCidrValidator :: validator
  ip6WithCidrValidator :: validator
  keyValidator :: validator
  allowedIPsValidator :: validator
  ipv4Validator :: validator
  ipv6Validator :: validator

text \<open>
  A line edit holds its contents and the palette \<open>setBackground\<close> gave it. The
  line edits that the widget reads with \<open>displayText\<close> show their contents as they
  are, so \<open>displayText\<close> gives the contents; the private key is in a password field
  and is read with \<open>text\<close>, the contents themselves. Signals are not modelled: the
  checks below are the slots connected to \<open>textChanged\<close>.
\<close>

datatype palette = normalPalette | warningPalette

record line_edit =
  contents :: string
  palette :: palette

definition displayText :: "line_edit \<Rightarrow> string" where
  "displayText w = contents w"

definition setText :: "line_edit \<Rightarrow> string \<Rightarrow> line_edit" where
  "setText w s = w\<lparr>contents := s\<rparr>"

definition setPalette :: "line_edit \<Rightarrow> palette \<Rightarrow> line_edit" where
  "setPalette w p = w\<lparr>palette := p\<rparr>"

definition setBackground :: "line_edit \<Rightarrow> bool \<Rightarrow> line_edit" where
  "setBackground w result = (if result then setPalette w normalPalette else setPalette w warningPalette)"

record Ui_WireGuardProp =
  addressIPv4LineEdit :: line_edit
  addressIPv6LineEdit :: line_edit
  privateKeyLineEdit :: line_edit
  publicKeyLineEdit :: line_edit
  allowedIPsLineEdit :: line_edit
  endpointAddressLineEdit :: line_edit
  endpointPortLineEdit :: line_edit

record VpnSetting =
  serviceType :: string
  vpnData :: NMStringMap

text \<open>
  The private data of the widget (\<open>WireGuardSettingWidget::Private\<close>): the form, the
  stored setting and the five validity flags.
\<close>

record Private =
  ui :: Ui_WireGuardProp
  setting :: VpnSetting
  addressValid :: bool
  privateKeyValid :: bool
  publicKeyValid :: bool
  allowedIpsValid :: bool
  endpointValid :: bool

definition WireGuardSettingWidget_isValid :: "Private \<Rightarrow> bool" where
  "WireGuardSettingWidget_isValid d =
     (addressValid d
      \<and> privateKeyValid d
      \<and> publicKeyValid d
      \<and> allowedIpsValid d
      \<and> endpointValid d)"

text \<open>
  \<open>checkAddressValid\<close>: both address fields are validated with their with-CIDR
  validators, the flag is computed, and both fields get the background of the flag.
  \<open>slotWidgetChanged\<close>, called last by every check, belongs to the base class
  \<open>SettingWidget\<close> (not part of this source) and only notifies the dialog; it is not
  modelled.
\<close>

definition checkAddressValid :: "validators \<Rightarrow> Private \<Rightarrow> Private" where
  "checkAddressValid V d =
     (let widget = addressIPv4LineEdit (ui d);
          value = displayText widget;
          ip4valid = (ip4WithCidrValidator V value = Acceptable);
          ip4present = (\<not> isEmpty (displayText widget));
          widget = addressIPv6LineEdit (ui d);
          value = displayText widget;
          ip6valid = (Acceptable = ip6WithCidrValidator V value);
          ip6present = (\<not> isEmpty (displayText widget));
          d = d\<lparr>addressValid :=
                (ip4valid \<and> ip6valid) \<or> (ip4valid \<and> \<not> ip6present) \<or> (\<not> ip4present \<and> ip6valid)\<rparr>;
          d = d\<lparr>ui := (ui d)\<lparr>addressIPv4LineEdit :=
                setBackground (addressIPv4LineEdit (ui d)) (addressValid d)\<rparr>\<rparr>;
          d = d\<lparr>ui := (ui d)\<lparr>addressIPv6LineEdit :=
                setBackground (addressIPv6LineEdit (ui d)) (addressValid d)\<rparr>\<rparr>
      in d)"

definition checkPrivateKeyValid :: "validators \<Rightarrow> Private \<Rightarrow> Private" where
  "checkPrivateKeyValid V d =
     (let widget = privateKeyLineEdit (ui d);
          value = contents widget;
          d = d\<lparr>privateKeyValid := (Acceptable = keyValidator V value)\<rparr>
      in d\<lparr>ui := (ui d)\<lparr>privateKeyLineEdit := setBackground widget (privateKeyValid d)\<rparr>\<rparr>)"

definition checkPublicKeyValid :: "validators \<Rightarrow> Private \<Rightarrow> Private" where
  "checkPublicKeyValid V d =
     (let widget = publicKeyLineEdit (ui d);
          value = displayText widget;
          d = d\<lparr>publicKeyValid := (Acceptable = keyValidator V value)\<rparr>
      in d\<lparr>ui := (ui d)\<lparr>publicKeyLineEdit := setBackground widget (publicKeyValid d)\<rparr>\<rparr>)"

definition checkAllowedIpsValid :: "validators \<Rightarrow> Private \<Rightarrow> Private" where
  "checkAllowedIpsValid V d =
     (let widget = allowedIPsLineEdit (ui d);
          value = displayText widget;
          d = d\<lparr>allowedIpsValid := (Acceptable = allowedIPsValidator V value)\<rparr>
      in d\<lparr>ui := (ui d)\<lparr>allowedIPsLineEdit := setBackground widget (allowedIpsValid d)\<rparr>\<rparr>)"

text \<open>
  The FQDN validator of \<open>checkEndpointValid\<close> is a \<open>QRegExpValidator\<close> over
  \<^verbatim>\<open>(?=.{5,254}$)([a-zA-Z0-9][a-zA-Z0-9-]{1,62}\.){1,63}[a-zA-Z]{2,63}\<close>
  and answers \<open>Acceptable\<close> exactly when the whole text matches. No character class of
  the expression contains the dot, so a text matches exactly when it has 5 to 254
  characters and, cut at its dots, consists of 1 to 63 labels (a letter or digit followed
  by 1 to 62 letters, digits or hyphens) and a last part of 2 to 63 letters.
\<close>

definition isLetter :: "char \<Rightarrow> bool" where
  "isLetter c = (c \<in> set (''abcdefghijklmnopqrstuvwxyz'' @ ''ABCDEFGHIJKLMNOPQRSTUVWXYZ''))"

definition isLetterOrDigit :: "char \<Rightarrow> bool" where
  "isLetterOrDigit c = (isLetter c \<or> c \<in> set ''0123456789'')"

definition labelMatches :: "string \<Rightarrow> bool" where
  "labelMatches l =
     (case l of
        [] \<Rightarrow> False
      | c # cs \<Rightarrow> isLetterOrDigit c \<and> 1 \<le> length cs \<and> length cs \<le> 62
                 \<and> list_all (\<lambda>x. isLetterOrDigit x \<or> x = CHR ''-'') cs)"

definition topLevelMatches :: "string \<Rightarrow> bool" where
  "topLevelMatches t = (2 \<le> length t \<and> length t \<le> 63 \<and> list_all isLetter t)"

definition fqdnExactMatch :: "string \<Rightarrow> bool" where
  "fqdnExactMatch s =
     (5 \<le> length s \<and> length s \<le> 254 \<and>
      (let parts = split s ''.''
       in 1 \<le> length (butlast parts) \<and> length (butlast parts) \<le> 63
          \<and> list_all labelMatches (butlast parts) \<and> topLevelMatches (last parts)))"

definition fqdnValidator :: validator where
  "fqdnValidator s = (if fqdnExactMatch s then Acceptable else Intermediate)"

text \<open>
  For a text that does not match, \<open>QRegExpValidator\<close> answers \<open>Intermediate\<close> or
  \<open>Invalid\<close>; the widget does not tell them apart, and the model answers
  \<open>Intermediate\<close> for both.
\<close>

definition checkEndpointValid :: "validators \<Rightarrow> Private \<Rightarrow> Private" where
  "checkEndpointValid V d =
     (let addressWidget = endpointAddressLineEdit (ui d);
          portWidget = endpointPortLineEdit (ui d);
          addressValue = displayText addressWidget;
          portString = displayText portWidget;
          addressValid = (Acceptable = fqdnValidator addressValue
                          \<or> Acceptable = ipv4Validator V addressValue
                          \<or> Acceptable = ipv6Validator V addressValue);
          bothEmpty = (isEmpty addressValue \<and> isEmpty portString);
          portValid = (\<not> isEmpty portString);
          d = d\<lparr>endpointValid := bothEmpty \<or> (addressValid \<and> portValid)\<rparr>;
          d = d\<lparr>ui := (ui d)\<lparr>endpointAddressLineEdit :=
                setBackground addressWidget (bothEmpty \<or> addressValid)\<rparr>\<rparr>;
          d = d\<lparr>ui := (ui d)\<lparr>endpointPortLineEdit :=
                setBackground portWidget (bothEmpty \<or> portValid)\<rparr>\<rparr>
      in d)"

text \<open>
  The keys of the data map and the service name are macros of
  \<open>nm-wireguard-service.h\<close>, which is not part of this source: they are parameters.
\<close>

record nm_wireguard_service =
  NM_DBUS_SERVICE_WIREGUARD :: string
  NM_WG_KEY_ADDR_IP4 :: string
  NM_WG_KEY_ADDR_IP6 :: string
  NM_WG_KEY_PRIVATE_KEY :: string
  NM_WG_KEY_PUBLIC_KEY :: string
  NM_WG_KEY_ALLOWED_IPS :: string
  NM_WG_KEY_ENDPOINT :: string

text \<open>
  \<open>QList::operator[]\<close> with an index outside the list is an error (an assertion in
  a debug build, undefined behaviour otherwise): reading an element is a result.
\<close>

datatype error = IndexOutOfRange

definition at :: "'a list \<Rightarrow> nat \<Rightarrow> error + 'a" where
  "at xs i = (if i < length xs then Inr (xs ! i) else Inl IndexOutOfRange)"

text \<open>
  \<open>loadConfig\<close> reads the stored setting of the widget (its argument is unused) and
  fills the seven line edits. The effects are in the order of the source: the address
  field of the endpoint is set from element 0 before element 1 is read.
\<close>

definition endpointList :: "string \<Rightarrow> string list" where
  "endpointList storedEndpoint =
     (if contains storedEndpoint '']:'' then split storedEndpoint '']:''
      else split storedEndpoint '':'')"

definition WireGuardSettingWidget_loadConfig :: "nm_wireguard_service \<Rightarrow> Private \<Rightarrow> error + Private" where
  "WireGuardSettingWidget_loadConfig K d =
     (let dataMap = vpnData (setting d);
          u = ui d;
          u = u\<lparr>addressIPv4LineEdit := setText (addressIPv4LineEdit u) (map_value dataMap (NM_WG_KEY_ADDR_IP4 K))\<rparr>;
          u = u\<lparr>addressIPv6LineEdit := setText (addressIPv6LineEdit u) (map_value dataMap (NM_WG_KEY_ADDR_IP6 K))\<rparr>;
          u = u\<lparr>privateKeyLineEdit := setText (privateKeyLineEdit u) (map_value dataMap (NM_WG_KEY_PRIVATE_KEY K))\<rparr>;
          u = u\<lparr>publicKeyLineEdit := setText (publicKeyLineEdit u) (map_value dataMap (NM_WG_KEY_PUBLIC_KEY K))\<rparr>;
          u = u\<lparr>allowedIPsLineEdit := setText (allowedIPsLineEdit u) (map_value dataMap (NM_WG_KEY_ALLOWED_IPS K))\<rparr>;
          storedEndpoint = map_value dataMap (NM_WG_KEY_ENDPOINT K);
          endpointList = endpointList storedEndpoint
      in case at endpointList 0 of
           Inl e \<Rightarrow> Inl e
         | Inr address \<Rightarrow>
             (let u = u\<lparr>endpointAddressLineEdit :=
                        setText (endpointAddressLineEdit u) (remove address CHR ''['')\<rparr>
              in case at endpointList 1 of
                   Inl e \<Rightarrow> Inl e
                 | Inr port \<Rightarrow>
                     Inr (d\<lparr>ui := u\<lparr>endpointPortLineEdit :=
                                setText (endpointPortLineEdit u) port\<rparr>\<rparr>)))"

text \<open>
  \<open>setProperty\<close> and \<open>setting\<close>. \<open>setting\<close> starts from the data of the stored
  setting, writes the five required entries and the endpoint, and returns a fresh VPN
  setting with the service type and the data; its serialisation (\<open>toMap\<close>) belongs to
  the NetworkManagerQt library and is not modelled.
\<close>

definition setProperty :: "NMStringMap \<Rightarrow> string \<Rightarrow> string \<Rightarrow> NMStringMap" where
  "setProperty data key value =
     (if \<not> isEmpty value then map_insert data key value else map_remove data key)"

definition WireGuardSettingWidget_setting :: "nm_wireguard_service \<Rightarrow> Private \<Rightarrow> VpnSetting" where
  "WireGuardSettingWidget_setting K d =
     (let data = vpnData (setting d);
          data = setProperty data (NM_WG_KEY_ADDR_IP4 K) (displayText (addressIPv4LineEdit (ui d)));
          data = setProperty data (NM_WG_KEY_ADDR_IP6 K) (displayText (addressIPv6LineEdit (ui d)));
          data = setProperty data (NM_WG_KEY_PRIVATE_KEY K) (contents (privateKeyLineEdit (ui d)));
          data = setProperty data (NM_WG_KEY_PUBLIC_KEY K) (displayText (publicKeyLineEdit (ui d)));
          data = setProperty data (NM_WG_KEY_ALLOWED_IPS K) (displayText (allowedIPsLineEdit (ui d)));
          addressString = displayText (endpointAddressLineEdit (ui d));
          data =
            (if \<not> isEmpty addressString then
               (if contains addressString '':'' then
                  setProperty data (NM_WG_KEY_ENDPOINT K)
                    (''['' @ trimmed (displayText (endpointAddressLineEdit (ui d))) @ '']:''
                     @ trimmed (displayText (endpointPortLineEdit (ui d))))
                else
                  setProperty data (NM_WG_KEY_ENDPOINT K)
                    (trimmed (displayText (endpointAddressLineEdit (ui d))) @ '':''
                     @ trimmed (displayText (endpointPortLineEdit (ui d)))))
             else data)
      in \<lparr>serviceType = NM_DBUS_SERVICE_WIREGUARD K, vpnData = data\<rparr>)"

text \<open>
  The texts of the address and endpoint fields, and the notions the properties use: an
  address accepted for the endpoint, the endpoint stored in the setting, and the
  separator \<open>loadConfig\<close> chooses for it.
\<close>

abbreviation addressIPv4 :: "Private \<Rightarrow> string" where
  "addressIPv4 d \<equiv> displayText (addressIPv4LineEdit (ui d))"

abbreviation addressIPv6 :: "Private \<Rightarrow> string" where
  "addressIPv6 d \<equiv> displayText (addressIPv6LineEdit (ui d))"

abbreviation endpointAddress :: "Private \<Rightarrow> string" where
  "endpointAddress d \<equiv> displayText (endpointAddressLineEdit (ui d))"

abbreviation endpointPort :: "Private \<Rightarrow> string" where
  "endpointPort d \<equiv> displayText (endpointPortLineEdit (ui d))"

definition acceptedAddress :: "validators \<Rightarrow> string \<Rightarrow> bool" where
  "acceptedAddress V s =
     (fqdnValidator s = Acceptable \<or> ipv4Validator V s = Acceptable \<or> ipv6Validator V s = Acceptable)"

definition storedEndpoint :: "nm_wireguard_service \<Rightarrow> Private \<Rightarrow> string" where
  "storedEndpoint K d = map_value (vpnData (setting d)) (NM_WG_KEY_ENDPOINT K)"

definition chosenSeparator :: "string \<Rightarrow> string" where
  "chosenSeparator s = (if contains s '']:'' then '']:'' else '':'')"

text \<open>
  The entry a field's text is to leave in the data map (none for an empty text), the
  five keys written from a field each, and the endpoint \<open>setting\<close> composes.
\<close>

definition entryOf :: "string \<Rightarrow> string option" where
  "entryOf t = (if t = [] then None else Some t)"

definition dataKeys :: "nm_wireguard_service \<Rightarrow> string list" where
  "dataKeys K = [NM_WG_KEY_ADDR_IP4 K, NM_WG_KEY_ADDR_IP6 K, NM_WG_KEY_PRIVATE_KEY K,
     NM_WG_KEY_PUBLIC_KEY K, NM_WG_KEY_ALLOWED_IPS K]"

definition endpointText :: "Private \<Rightarrow> string" where
  "endpointText d =
     (if contains (endpointAddress d) '':''
      then ''['' @ trimmed (endpointAddress d) @ '']:'' @ trimmed (endpointPort d)
      else trimmed (endpointAddress d) @ '':'' @ trimmed (endpointPort d))"

section \<open>The connection editor's main\<close>

text \<open>
  \<open>main\<close> creates the editor and, after \<open>KCmdLineArgs\<close> has parsed the command
  line, either edits the connection named by the first positional argument or shows the
  editor window. The model starts from the parsed positional arguments; the editor is
  the list of calls it receives, and the value of \<open>app.exec()\<close>, which \<open>main\<close>
  returns, is a parameter.
\<close>

datatype editor_call = editConnection string | showEditor

type_synonym ConnectionEditor = "editor_call list"

definition main :: "string list \<Rightarrow> int \<Rightarrow> ConnectionEditor \<times> int" where
  "main args app_exec =
     (let editor = [];
          editor = (if length args \<noteq> 0 then editor @ [editConnection (args ! 0)]
                    else editor @ [showEditor])
      in (editor, app_exec))"

section \<open>The network model\<close>

text \<open>
  A device has a type and a path (\<open>uni\<close>). Of the device types of the NetworkManagerQt
  library the constructor names three; every other type is \<open>Device_Other\<close>.
\<close>

datatype device_type = Device_Ethernet | Device_Modem | Device_Wifi | Device_Other nat

record Device =
  deviceType :: device_type
  uni :: string

datatype item_type = Item_Ethernet | Item_Modem | Item_Wifi | Item_Vpn

record NetworkModelItem =
  itemType :: item_type
  itemPath :: string

text \<open>
  The model holds \<open>m_networkItems\<close>, a list of pointers to items; a null pointer is
  \<open>None\<close>. The notifications \<open>beginInsertRows\<close> and \<open>endInsertRows\<close> go to the
  views and are not modelled.
\<close>

record NetworkModel =
  m_networkItems :: "NetworkModelItem option list"

text \<open>
  One pass of the constructor's \<open>foreach\<close> loop, with the local variables
  \<open>nonVirtualDevice\<close> and \<open>item\<close> and the list.
\<close>

fun addDevices :: "Device list \<Rightarrow> bool \<Rightarrow> NetworkModelItem option \<Rightarrow> NetworkModelItem option list
    \<Rightarrow> bool \<times> NetworkModelItem option \<times> NetworkModelItem option list" where
  "addDevices [] nonVirtualDevice item items = (nonVirtualDevice, item, items)"
| "addDevices (device # devices) nonVirtualDevice item items =
     (let (item, nonVirtualDevice) =
            (if deviceType device = Device_Ethernet then
               (Some \<lparr>itemType = Item_Ethernet, itemPath = uni device\<rparr>, True)
             else if deviceType device = Device_Modem then
               (Some \<lparr>itemType = Item_Modem, itemPath = uni device\<rparr>, True)
             else if deviceType device = Device_Wifi then
               (Some \<lparr>itemType = Item_Wifi, itemPath = uni device\<rparr>, True)
             else (item, nonVirtualDevice));
          (items, nonVirtualDevice, item) =
            (if nonVirtualDevice then (items @ [item], False, None)
             else (items, nonVirtualDevice, item))
      in addDevices devices nonVirtualDevice item items)"

text \<open>
  The constructor, given the devices that \<open>NetworkManager::networkInterfaces()\<close>
  enumerates: the loop, then the VPN item at the end.
\<close>

definition NetworkModel_new :: "Device list \<Rightarrow> NetworkModel" where
  "NetworkModel_new networkInterfaces =
     (let (nonVirtualDevice, item, items) = addDevices networkInterfaces False None [];
          item = Some \<lparr>itemType = Item_Vpn, itemPath = []\<rparr>
      in \<lparr>m_networkItems = items @ [item]\<rparr>)"

definition count :: "NetworkModel \<Rightarrow> int" where
  "count m = int (length (m_networkItems m))"

definition rowCount :: "NetworkModel \<Rightarrow> int" where
  "rowCount m = int (length (m_networkItems m))"

text \<open>
  \<open>data\<close>: the name and the icon of an item are computed by
  \<open>NetworkModelItem\<close>, which is not part of this source; they are parameters.
  Reading through a null pointer is an error.
\<close>

datatype role = TypeRole | NameRole | IconRole | PathRole | OtherRole int

datatype QVariant = InvalidVariant | TypeVariant item_type | StringVariant string

datatype model_error = NullPointer

definition data :: "(NetworkModelItem \<Rightarrow> string) \<Rightarrow> (NetworkModelItem \<Rightarrow> string)
    \<Rightarrow> NetworkModel \<Rightarrow> int \<Rightarrow> role \<Rightarrow> model_error + QVariant" where
  "data itemName itemIcon m row r =
     (if row \<ge> 0 \<and> row < count m then
        (case m_networkItems m ! nat row of
           None \<Rightarrow> Inl NullPointer
         | Some item \<Rightarrow>
             (case r of
                TypeRole \<Rightarrow> Inr (TypeVariant (itemType item))
              | NameRole \<Rightarrow> Inr (StringVariant (itemName item))
              | IconRole \<Rightarrow> Inr (StringVariant (itemIcon item))
              | PathRole \<Rightarrow> Inr (StringVariant (itemPath item))
              | OtherRole _ \<Rightarrow> Inr InvalidVariant))
      else Inr InvalidVariant)"

text \<open>
  The operations of the model after construction are \<open>count\<close>, \<open>rowCount\<close> and
  \<open>data\<close>, all of them \<open>const\<close>; the handlers that would add or remove items
  (\<open>deviceAdded\<close>, \<open>deviceRemoved\<close>, \<open>connectionAdded\<close>, \<open>connectionRemoved\<close>)
  are commented out. A call returns its answer and the model it leaves behind.
\<close>

datatype model_call = Call_count | Call_rowCount | Call_data int role

datatype model_answer = Answer_int int | Answer_variant "model_error + QVariant"

definition call :: "(NetworkModelItem \<Rightarrow> string) \<Rightarrow> (NetworkModelItem \<Rightarrow> string)
    \<Rightarrow> NetworkModel \<Rightarrow> model_call \<Rightarrow> model_answer \<times> NetworkModel" where
  "call itemName itemIcon m c =
     (case c of
        Call_count \<Rightarrow> (Answer_int (count m), m)
      | Call_rowCount \<Rightarrow> (Answer_int (rowCount m), m)
      | Call_data row r \<Rightarrow> (Answer_variant (data itemName itemIcon m row r), m))"

fun calls :: "(NetworkModelItem \<Rightarrow> string) \<Rightarrow> (NetworkModelItem \<Rightarrow> string)
    \<Rightarrow> NetworkModel \<Rightarrow> model_call list \<Rightarrow> NetworkModel" where
  "calls itemName itemIcon m [] = m"
| "calls itemName itemIcon m (c # cs) = calls itemName itemIcon (snd (call itemName itemIcon m c)) cs"

text \<open>
  The items a device contributes, as the specification words it: one item for an Ethernet, modem
  or Wi-Fi device, none for a device of any other type.
\<close>

definition isNonVirtual :: "Device \<Rightarrow> bool" where
  "isNonVirtual device = (deviceType device \<in> {Device_Ethernet, Device_Modem, Device_Wifi})"

definition itemsOf :: "Device \<Rightarrow> NetworkModelItem option list" where
  "itemsOf device =
     (case deviceType device of
        Device_Ethernet \<Rightarrow> [Some \<lparr>itemType = Item_Ethernet, itemPath = uni device\<rparr>]
      | Device_Modem \<Rightarrow> [Some \<lparr>itemType = Item_Modem, itemPath = uni device\<rparr>]
      | Device_Wifi \<Rightarrow> [Some \<lparr>itemType = Item_Wifi, itemPath = uni device\<rparr>]
      | Device_Other _ \<Rightarrow> [])"

definition vpnItem :: "NetworkModelItem option" where
  "vpnItem = Some \<lparr>itemType = Item_Vpn, itemPath = []\<rparr>"

section \<open>The bridge widget\<close>


type_synonym cint = "32 word"




text \<open>
  The widgets of the form. A \<open>QSpinBox\<close> has a range, and \<open>setValue\<close> brings a
  value outside the range to the nearest bound (the spin boxes do not wrap). The ranges
  are set by the form \<open>ui_bridge.h\<close>, which is not part of this source, so they are
  part of the widget's state. A checkable group box holds its flag, and a list widget
  holds its items, each with a label and the data of \<open>Qt::UserRole\<close>.
\<close>

record spin_box =
  minimum :: cint
  maximum :: cint
  current :: cint


text \<open>
  A spin box admits the values of its range.
\<close>

definition admits :: "spin_box \<Rightarrow> cint \<Rightarrow> bool" where
  "admits sb v = (word_sle (minimum sb) v \<and> word_sle v (maximum sb))"

record group_box =
  checked :: bool


record QListWidgetItem =
  label :: string
  userData :: string

record Ui_BridgeWidget =
  ui_ifaceName :: line_edit
  ui_agingTime :: spin_box
  ui_stpGroup :: group_box
  ui_priority :: spin_box
  ui_forwardDelay :: spin_box
  ui_helloTime :: spin_box
  ui_maxAge :: spin_box
  ui_bridges :: "QListWidgetItem list"

text \<open>
  The widget: the UUID and the id of the master connection, the type of its setting
  (\<open>type()\<close> of the base class \<open>SettingWidget\<close>) and the form.
\<close>

record BridgeWidget =
  m_uuid :: string
  m_id :: string
  widgetType :: string
  m_ui :: Ui_BridgeWidget



text \<open>
  A connection profile as \<open>populateBridges\<close> reads it: its name and UUID, and the
  master, slave type and connection type of its settings. The label of a list item is
  \<open>QString("%1 (%2)")\<close> filled with the name and with \<open>typeAsString\<close> of the
  connection type; the function building it is a parameter.
\<close>

record Connection =
  connectionName :: string
  connectionUuid :: string
  master :: string
  slaveType :: string
  connectionType :: nat

fun addSlaves :: "(string \<Rightarrow> nat \<Rightarrow> string) \<Rightarrow> BridgeWidget \<Rightarrow> Connection list
    \<Rightarrow> QListWidgetItem list \<Rightarrow> QListWidgetItem list" where
  "addSlaves mkLabel w [] bridges = bridges"
| "addSlaves mkLabel w (connection # connections) bridges =
     (let master = master connection;
          isSlave = ((master = m_uuid w) \<or> (\<not> isEmpty (m_id w) \<and> master = m_id w))
      in if isSlave \<and> (slaveType connection = widgetType w) then
           (let label = mkLabel (connectionName connection) (connectionType connection);
                slaveItem = \<lparr>label = label, userData = connectionUuid connection\<rparr>
            in addSlaves mkLabel w connections (bridges @ [slaveItem]))
         else addSlaves mkLabel w connections bridges)"

text \<open>
  \<open>populateBridges\<close>, given the connections that
  \<open>NetworkManager::listConnections()\<close> enumerates: the list is cleared, then filled.
\<close>

definition populateBridges :: "(string \<Rightarrow> nat \<Rightarrow> string) \<Rightarrow> Connection list \<Rightarrow> BridgeWidget \<Rightarrow> BridgeWidget" where
  "populateBridges mkLabel listConnections w =
     (let w = w\<lparr>m_ui := (m_ui w)\<lparr>ui_bridges := []\<rparr>\<rparr>
      in w\<lparr>m_ui := (m_ui w)\<lparr>ui_bridges := addSlaves mkLabel w listConnections (ui_bridges (m_ui w))\<rparr>\<rparr>)"

definition BridgeWidget_isValid :: "BridgeWidget \<Rightarrow> bool" where
  "BridgeWidget_isValid w =
     (\<not> isEmpty (contents (ui_ifaceName (m_ui w))) \<and> int (length (ui_bridges (m_ui w))) > 0)"

text \<open>
  The slaves of the widget among the connections, as the specification words them.
\<close>

definition isSlaveOf :: "BridgeWidget \<Rightarrow> Connection \<Rightarrow> bool" where
  "isSlaveOf w connection =
     ((master connection = m_uuid w \<or> (m_id w \<noteq> [] \<and> master connection = m_id w))
      \<and> slaveType connection = widgetType w)"

section \<open>Sample values\<close>

text \<open>
  Concrete values at which the theorems below are instantiated: validators that accept
  one text each, six distinct keys for the data map, and a WireGuard widget with the
  flags as \<open>Private::Private\<close> initialises them, with given texts in the address
  and endpoint fields and a given data map in the stored setting.
\<close>

definition accepts :: "string \<Rightarrow> validator" where
  "accepts s t = (if t = s then Acceptable else Intermediate)"

definition sampleValidators :: validators where
  "sampleValidators =
     \<lparr>ip4WithCidrValidator = accepts ''10.0.0.2/24'',
      ip6WithCidrValidator = accepts ''fd00::2/64'',
      keyValidator = accepts ''key'',
      allowedIPsValidator = accepts ''0.0.0.0/0'',
      ipv4Validator = accepts ''192.0.2.1'',
      ipv6Validator = accepts ''2001:db8::1''\<rparr>"

definition sampleKeys :: nm_wireguard_service where
  "sampleKeys =
     \<lparr>NM_DBUS_SERVICE_WIREGUARD = ''org.freedesktop.NetworkManager.wireguard'',
      NM_WG_KEY_ADDR_IP4 = ''local-ip4'',
      NM_WG_KEY_ADDR_IP6 = ''local-ip6'',
      NM_WG_KEY_PRIVATE_KEY = ''local-private-key'',
      NM_WG_KEY_PUBLIC_KEY = ''peer-public-key'',
      NM_WG_KEY_ALLOWED_IPS = ''peer-allowed-ips'',
      NM_WG_KEY_ENDPOINT = ''peer-endpoint''\<rparr>"

definition lineEdit :: "string \<Rightarrow> line_edit" where
  "lineEdit s = \<lparr>contents = s, palette = normalPalette\<rparr>"

definition sampleWidget :: "string \<Rightarrow> string \<Rightarrow> string \<Rightarrow> string \<Rightarrow> NMStringMap \<Rightarrow> Private" where
  "sampleWidget ip4 ip6 address port m =
     \<lparr>ui = \<lparr>addressIPv4LineEdit = lineEdit ip4,
            addressIPv6LineEdit = lineEdit ip6,
            privateKeyLineEdit = lineEdit ''key'',
            publicKeyLineEdit = lineEdit [],
            allowedIPsLineEdit = lineEdit ''0.0.0.0/0'',
            endpointAddressLineEdit = lineEdit address,
            endpointPortLineEdit = lineEdit port\<rparr>,
      setting = \<lparr>serviceType = [], vpnData = m\<rparr>,
      addressValid = False,
      privateKeyValid = False,
      publicKeyValid = False,
      allowedIpsValid = False,
      endpointValid = True\<rparr>"

text \<open>
  A bridge widget with some ranges for its five spin boxes, a given interface name and
  a given list of slaves; a bridge setting with a given STP flag; a fresh setting; and a
  connection with a given UUID, master and slave type.
\<close>

definition spinBox :: "cint \<Rightarrow> cint \<Rightarrow> cint \<Rightarrow> spin_box" where
  "spinBox lo hi v = \<lparr>minimum = lo, maximum = hi, current = v\<rparr>"

definition sampleBridgeWidget :: "string \<Rightarrow> QListWidgetItem list \<Rightarrow> BridgeWidget" where
  "sampleBridgeWidget name items =
     \<lparr>m_uuid = ''uuid-0'', m_id = ''br0'', widgetType = ''bridge'',
      m_ui = \<lparr>ui_ifaceName = lineEdit name,
              ui_agingTime = spinBox 0 1000000 300,
              ui_stpGroup = \<lparr>checked = True\<rparr>,
              ui_priority = spinBox 0 65535 128,
              ui_forwardDelay = spinBox 2 30 15,
              ui_helloTime = spinBox 1 10 2,
              ui_maxAge = spinBox 6 40 20,
              ui_bridges = items\<rparr>\<rparr>"



definition sampleConnection :: "string \<Rightarrow> string \<Rightarrow> string \<Rightarrow> Connection" where
  "sampleConnection u m t =
     \<lparr>connectionName = ''port'', connectionUuid = u, master = m, slaveType = t,
      connectionType = 0\<rparr>"

text \<open>
  Three devices: one of another type, a Wi-Fi device and an Ethernet device.
\<close>

definition sampleDevices :: "Device list" where
  "sampleDevices =
     [\<lparr>deviceType = Device_Other 5, uni = ''/org/freedesktop/NetworkManager/Devices/0''\<rparr>,
      \<lparr>deviceType = Device_Wifi, uni = ''/org/freedesktop/NetworkManager/Devices/1''\<rparr>,
      \<lparr>deviceType = Device_Ethernet, uni = ''/org/freedesktop/NetworkManager/Devices/2''\<rparr>]"

section \<open>Properties of the WireGuard setting widget\<close>

text \<open>
  C1. \<open>WireGuardSettingWidget::isValid\<close> returns true if and only if all five validity
  flags (address, private key, public key, allowed IPs, endpoint) are true; if any one
  of them is false, it returns false.
\<close>

theorem isValid_iff_all_flags:
  "(WireGuardSettingWidget_isValid d \<longleftrightarrow>
      addressValid d \<and> privateKeyValid d \<and> publicKeyValid d \<and> allowedIpsValid d \<and> endpointValid d)
   \<and> (\<not> addressValid d \<or> \<not> privateKeyValid d \<or> \<not> publicKeyValid d
        \<or> \<not> allowedIpsValid d \<or> \<not> endpointValid d
      \<longrightarrow> \<not> WireGuardSettingWidget_isValid d)"
  by (auto simp add: WireGuardSettingWidget_isValid_def)

text \<open>
  At the flags the constructor sets (only the endpoint flag true) the widget is not
  valid; with the other four flags raised it is.
\<close>

theorem isValid_iff_all_flags_witness:
  "\<not> WireGuardSettingWidget_isValid (sampleWidget [] [] [] [] Map.empty)
   \<and> WireGuardSettingWidget_isValid
       ((sampleWidget [] [] [] [] Map.empty)\<lparr>addressValid := True, privateKeyValid := True,
          publicKeyValid := True, allowedIpsValid := True\<rparr>)"
  using isValid_iff_all_flags [of "sampleWidget [] [] [] [] Map.empty"]
    isValid_iff_all_flags [of "(sampleWidget [] [] [] [] Map.empty)\<lparr>addressValid := True,
      privateKeyValid := True, publicKeyValid := True, allowedIpsValid := True\<rparr>"]
  by (simp add: sampleWidget_def)

subsection \<open>The endpoint check\<close>

lemma endpointValid_checkEndpointValid:
  "endpointValid (checkEndpointValid V d) =
     ((isEmpty (endpointAddress d) \<and> isEmpty (endpointPort d))
      \<or> ((Acceptable = fqdnValidator (endpointAddress d)
           \<or> Acceptable = ipv4Validator V (endpointAddress d)
           \<or> Acceptable = ipv6Validator V (endpointAddress d))
          \<and> \<not> isEmpty (endpointPort d)))"
  by (simp add: checkEndpointValid_def Let_def)

lemma fqdnValidator_empty: "fqdnValidator [] \<noteq> Acceptable"
  by (simp add: fqdnValidator_def fqdnExactMatch_def)

text \<open>
  C2. The endpoint validator accepts exactly these cases: both the address field and the
  port field are empty, or the address field is accepted by the FQDN validator, the IPv4
  validator or the IPv6 validator and the port field is not empty. In every other
  combination the flag is set to false: an address without a port; a port with an
  address that is not accepted; and a port without an address, given that the two IP
  address validators (parameters here) do not accept the empty text, which the FQDN
  expression never does.
\<close>

theorem checkEndpointValid_accepts:
  "(endpointValid (checkEndpointValid V d) \<longleftrightarrow>
      (endpointAddress d = [] \<and> endpointPort d = [])
      \<or> (acceptedAddress V (endpointAddress d) \<and> endpointPort d \<noteq> []))
   \<and> (endpointAddress d \<noteq> [] \<and> endpointPort d = [] \<longrightarrow> \<not> endpointValid (checkEndpointValid V d))
   \<and> (endpointPort d \<noteq> [] \<and> \<not> acceptedAddress V (endpointAddress d)
        \<longrightarrow> \<not> endpointValid (checkEndpointValid V d))
   \<and> (ipv4Validator V [] \<noteq> Acceptable \<and> ipv6Validator V [] \<noteq> Acceptable
        \<and> endpointPort d \<noteq> [] \<and> endpointAddress d = []
        \<longrightarrow> \<not> endpointValid (checkEndpointValid V d))"
  using fqdnValidator_empty
  by (auto simp add: endpointValid_checkEndpointValid acceptedAddress_def isEmpty_def)

text \<open>
  Six forms: both fields empty; an IPv4 address with a port; a host name with a port;
  an address without a port; an unfinished address with a port; a port alone.
\<close>

theorem checkEndpointValid_accepts_witness:
  "endpointValid (checkEndpointValid sampleValidators (sampleWidget [] [] [] [] Map.empty))
   \<and> endpointValid (checkEndpointValid sampleValidators (sampleWidget [] [] ''192.0.2.1'' ''51820'' Map.empty))
   \<and> endpointValid (checkEndpointValid sampleValidators (sampleWidget [] [] ''vpn.example.org'' ''51820'' Map.empty))
   \<and> \<not> endpointValid (checkEndpointValid sampleValidators (sampleWidget [] [] ''192.0.2.1'' [] Map.empty))
   \<and> \<not> endpointValid (checkEndpointValid sampleValidators (sampleWidget [] [] ''192.0.2.'' ''51820'' Map.empty))
   \<and> \<not> endpointValid (checkEndpointValid sampleValidators (sampleWidget [] [] [] ''51820'' Map.empty))"
  using checkEndpointValid_accepts [of sampleValidators "sampleWidget [] [] [] [] Map.empty"]
    checkEndpointValid_accepts [of sampleValidators "sampleWidget [] [] ''192.0.2.1'' ''51820'' Map.empty"]
    checkEndpointValid_accepts [of sampleValidators "sampleWidget [] [] ''vpn.example.org'' ''51820'' Map.empty"]
    checkEndpointValid_accepts [of sampleValidators "sampleWidget [] [] ''192.0.2.1'' [] Map.empty"]
    checkEndpointValid_accepts [of sampleValidators "sampleWidget [] [] ''192.0.2.'' ''51820'' Map.empty"]
    checkEndpointValid_accepts [of sampleValidators "sampleWidget [] [] [] ''51820'' Map.empty"]
  by (simp add: sampleWidget_def sampleValidators_def lineEdit_def displayText_def accepts_def
      acceptedAddress_def fqdnValidator_def fqdnExactMatch_def split_def labelMatches_def
      topLevelMatches_def isLetter_def isLetterOrDigit_def)

subsection \<open>The address check\<close>

lemma addressValid_checkAddressValid:
  "addressValid (checkAddressValid V d) =
     ((ip4WithCidrValidator V (addressIPv4 d) = Acceptable \<and> Acceptable = ip6WithCidrValidator V (addressIPv6 d))
      \<or> (ip4WithCidrValidator V (addressIPv4 d) = Acceptable \<and> isEmpty (addressIPv6 d))
      \<or> (isEmpty (addressIPv4 d) \<and> Acceptable = ip6WithCidrValidator V (addressIPv6 d)))"
  by (simp add: checkAddressValid_def Let_def)

text \<open>
  C3. After \<open>checkAddressValid\<close> the address flag is true if and only if both fields are
  accepted by their with-CIDR validators, or the IPv4 field is accepted and the IPv6
  field is empty, or the IPv4 field is empty and the IPv6 field is accepted. A field that
  is not empty and not accepted makes the flag false, and so do two empty fields, given
  that the two validators (parameters here) do not accept the empty text.
\<close>

theorem checkAddressValid_flag:
  "(addressValid (checkAddressValid V d) \<longleftrightarrow>
      (ip4WithCidrValidator V (addressIPv4 d) = Acceptable \<and> ip6WithCidrValidator V (addressIPv6 d) = Acceptable)
      \<or> (ip4WithCidrValidator V (addressIPv4 d) = Acceptable \<and> addressIPv6 d = [])
      \<or> (addressIPv4 d = [] \<and> ip6WithCidrValidator V (addressIPv6 d) = Acceptable))
   \<and> (addressIPv4 d \<noteq> [] \<and> ip4WithCidrValidator V (addressIPv4 d) \<noteq> Acceptable
        \<longrightarrow> \<not> addressValid (checkAddressValid V d))
   \<and> (addressIPv6 d \<noteq> [] \<and> ip6WithCidrValidator V (addressIPv6 d) \<noteq> Acceptable
        \<longrightarrow> \<not> addressValid (checkAddressValid V d))
   \<and> (ip4WithCidrValidator V [] \<noteq> Acceptable \<and> ip6WithCidrValidator V [] \<noteq> Acceptable
        \<and> addressIPv4 d = [] \<and> addressIPv6 d = []
        \<longrightarrow> \<not> addressValid (checkAddressValid V d))"
  by (auto simp add: addressValid_checkAddressValid isEmpty_def)

theorem checkAddressValid_flag_witness:
  "addressValid (checkAddressValid sampleValidators (sampleWidget ''10.0.0.2/24'' ''fd00::2/64'' [] [] Map.empty))
   \<and> addressValid (checkAddressValid sampleValidators (sampleWidget ''10.0.0.2/24'' [] [] [] Map.empty))
   \<and> addressValid (checkAddressValid sampleValidators (sampleWidget [] ''fd00::2/64'' [] [] Map.empty))
   \<and> \<not> addressValid (checkAddressValid sampleValidators (sampleWidget ''10.0.0.2/24'' ''fd00::'' [] [] Map.empty))
   \<and> \<not> addressValid (checkAddressValid sampleValidators (sampleWidget ''10.0.0.'' ''fd00::2/64'' [] [] Map.empty))
   \<and> \<not> addressValid (checkAddressValid sampleValidators (sampleWidget [] [] [] [] Map.empty))"
  using checkAddressValid_flag [of sampleValidators "sampleWidget ''10.0.0.2/24'' ''fd00::2/64'' [] [] Map.empty"]
    checkAddressValid_flag [of sampleValidators "sampleWidget ''10.0.0.2/24'' [] [] [] Map.empty"]
    checkAddressValid_flag [of sampleValidators "sampleWidget [] ''fd00::2/64'' [] [] Map.empty"]
    checkAddressValid_flag [of sampleValidators "sampleWidget ''10.0.0.2/24'' ''fd00::'' [] [] Map.empty"]
    checkAddressValid_flag [of sampleValidators "sampleWidget ''10.0.0.'' ''fd00::2/64'' [] [] Map.empty"]
    checkAddressValid_flag [of sampleValidators "sampleWidget [] [] [] [] Map.empty"]
  by (simp add: sampleWidget_def sampleValidators_def lineEdit_def displayText_def accepts_def)

subsection \<open>Loading the stored endpoint\<close>

lemma splitFrom_nonempty: "splitFrom d ds cur s \<noteq> []"
  by (induction d ds cur s rule: splitFrom.induct) auto

text \<open>
  A split has a second element exactly when the separator occurs in the string.
\<close>

lemma length_splitFrom: "(1 < length (splitFrom d ds cur s)) = contains s (d # ds)"
proof (induction d ds cur s rule: splitFrom.induct)
  case (1 d ds cur)
  then show ?case by simp
next
  case (2 d ds cur c cs)
  show ?case
  proof (cases "prefix (d # ds) (c # cs)")
    case True
    then have "splitFrom d ds cur (c # cs) = rev cur # splitFrom d ds [] (drop (length ds) cs)"
      by simp
    moreover have "0 < length (splitFrom d ds [] (drop (length ds) cs))"
      using splitFrom_nonempty by blast
    moreover have "contains (c # cs) (d # ds)"
      using True by simp
    ultimately show ?thesis by simp
  next
    case False
    then have "splitFrom d ds cur (c # cs) = splitFrom d ds (c # cur) cs"
      by auto
    moreover have "contains (c # cs) (d # ds) = contains cs (d # ds)"
      using False by auto
    ultimately show ?thesis using 2(2)[OF False] by simp
  qed
qed

lemma contains_subset: "contains s sub \<Longrightarrow> set sub \<subseteq> set s"
proof (induction s)
  case Nil
  then show ?case by simp
next
  case (Cons c cs)
  then show ?case using set_mono_prefix[of sub "c # cs"] by auto
qed

lemma contains_single: "contains s [c] = (c \<in> set s)"
  by (induction s) auto

lemma length_endpointList_separator:
  "(1 < length (endpointList s)) = contains s (chosenSeparator s)"
  using length_splitFrom[of "CHR '']''" "'':''" "[]" s] length_splitFrom[of "CHR '':''" "[]" "[]" s]
  by (simp add: endpointList_def chosenSeparator_def split_def del: contains.simps)

lemma contains_separator_colon:
  "contains s (chosenSeparator s) = (CHR '':'' \<in> set s)"
  using contains_subset[of s "'']:''"] contains_single[of s "CHR '':''"]
  by (auto simp add: chosenSeparator_def simp del: contains.simps)

lemma endpointList_nonempty: "0 < length (endpointList s)"
  using splitFrom_nonempty by (simp add: endpointList_def split_def)

lemma loadConfig_error:
  "(WireGuardSettingWidget_loadConfig K d = Inl IndexOutOfRange)
     = (\<not> 1 < length (endpointList (storedEndpoint K d)))"
  using endpointList_nonempty[of "storedEndpoint K d"]
  by (simp add: WireGuardSettingWidget_loadConfig_def Let_def at_def storedEndpoint_def)

text \<open>
  C9. \<open>loadConfig\<close> splits the stored endpoint on \<open>"]:"\<close> when it occurs and on
  \<open>":"\<close> otherwise, and reads element 1 of the list unconditionally. The index is in
  bounds exactly when the stored endpoint contains the chosen separator. So for every
  setting whose endpoint value is empty or has no colon, for one when the endpoint key is
  absent from the data map, the read of element 1 is out of bounds and \<open>loadConfig\<close>
  fails; with a colon in the stored endpoint it returns.
\<close>

theorem loadConfig_out_of_bounds:
  "(at (endpointList (storedEndpoint K d)) 1 \<noteq> Inl IndexOutOfRange
      \<longleftrightarrow> contains (storedEndpoint K d) (chosenSeparator (storedEndpoint K d)))
   \<and> (storedEndpoint K d = [] \<or> CHR '':'' \<notin> set (storedEndpoint K d)
        \<longrightarrow> at (endpointList (storedEndpoint K d)) 1 = Inl IndexOutOfRange
            \<and> WireGuardSettingWidget_loadConfig K d = Inl IndexOutOfRange)
   \<and> (vpnData (setting d) (NM_WG_KEY_ENDPOINT K) = None
        \<longrightarrow> WireGuardSettingWidget_loadConfig K d = Inl IndexOutOfRange)
   \<and> (CHR '':'' \<in> set (storedEndpoint K d)
        \<longrightarrow> (\<exists>d'. WireGuardSettingWidget_loadConfig K d = Inr d'))"
proof -
  let ?s = "storedEndpoint K d"
  have bounds: "(at (endpointList ?s) 1 = Inl IndexOutOfRange) = (CHR '':'' \<notin> set ?s)"
    using length_endpointList_separator[of ?s] contains_separator_colon[of ?s]
    by (simp add: at_def)
  have load: "(WireGuardSettingWidget_loadConfig K d = Inl IndexOutOfRange) = (CHR '':'' \<notin> set ?s)"
    using length_endpointList_separator[of ?s] contains_separator_colon[of ?s]
    by (simp add: loadConfig_error)
  have absent: "vpnData (setting d) (NM_WG_KEY_ENDPOINT K) = None \<Longrightarrow> ?s = []"
    by (simp add: storedEndpoint_def map_value_def)
  have returns: "(\<exists>d'. WireGuardSettingWidget_loadConfig K d = Inr d')
      = (WireGuardSettingWidget_loadConfig K d \<noteq> Inl IndexOutOfRange)"
    by (cases "WireGuardSettingWidget_loadConfig K d") (auto intro: error.exhaust)
  show ?thesis
    unfolding returns load bounds contains_separator_colon
    using absent by auto
qed

text \<open>
  A setting without the endpoint key, one whose endpoint is a host name without a port,
  and two with a well-formed endpoint.
\<close>

theorem loadConfig_out_of_bounds_witness:
  "WireGuardSettingWidget_loadConfig sampleKeys (sampleWidget [] [] [] [] Map.empty)
     = Inl IndexOutOfRange
   \<and> WireGuardSettingWidget_loadConfig sampleKeys
       (sampleWidget [] [] [] [] [''peer-endpoint'' \<mapsto> ''vpn.example.org''])
     = Inl IndexOutOfRange
   \<and> WireGuardSettingWidget_loadConfig sampleKeys
       (sampleWidget [] [] [] [] [''peer-endpoint'' \<mapsto> ''192.0.2.1:51820''])
     \<noteq> Inl IndexOutOfRange
   \<and> WireGuardSettingWidget_loadConfig sampleKeys
       (sampleWidget [] [] [] [] [''peer-endpoint'' \<mapsto> ''[2001:db8::1]:51820''])
     \<noteq> Inl IndexOutOfRange"
proof -
  have stored: "storedEndpoint sampleKeys (sampleWidget [] [] [] [] m) = map_value m ''peer-endpoint''" for m
    by (simp add: storedEndpoint_def sampleWidget_def sampleKeys_def)
  have "WireGuardSettingWidget_loadConfig sampleKeys (sampleWidget [] [] [] [] Map.empty)
      = Inl IndexOutOfRange"
    using loadConfig_out_of_bounds [of sampleKeys "sampleWidget [] [] [] [] Map.empty"]
    by (simp add: stored map_value_def)
  moreover have "WireGuardSettingWidget_loadConfig sampleKeys
       (sampleWidget [] [] [] [] [''peer-endpoint'' \<mapsto> ''vpn.example.org''])
      = Inl IndexOutOfRange"
    using loadConfig_out_of_bounds [of sampleKeys
      "sampleWidget [] [] [] [] [''peer-endpoint'' \<mapsto> ''vpn.example.org'']"]
    by (simp add: stored map_value_def)
  moreover have "WireGuardSettingWidget_loadConfig sampleKeys
       (sampleWidget [] [] [] [] [''peer-endpoint'' \<mapsto> ''192.0.2.1:51820''])
      \<noteq> Inl IndexOutOfRange"
    using loadConfig_out_of_bounds [of sampleKeys
      "sampleWidget [] [] [] [] [''peer-endpoint'' \<mapsto> ''192.0.2.1:51820'']"]
    by (auto simp add: stored map_value_def)
  moreover have "WireGuardSettingWidget_loadConfig sampleKeys
       (sampleWidget [] [] [] [] [''peer-endpoint'' \<mapsto> ''[2001:db8::1]:51820''])
      \<noteq> Inl IndexOutOfRange"
    using loadConfig_out_of_bounds [of sampleKeys
      "sampleWidget [] [] [] [] [''peer-endpoint'' \<mapsto> ''[2001:db8::1]:51820'']"]
    by (auto simp add: stored map_value_def)
  ultimately show ?thesis by blast
qed

subsection \<open>Writing the data map\<close>

lemma setProperty_lookup:
  "setProperty m k v k' = (if k' = k then entryOf v else m k')"
  by (simp add: setProperty_def map_insert_def map_remove_def entryOf_def isEmpty_def)

lemma endpointText_nonempty: "entryOf (endpointText d) = Some (endpointText d)"
  by (simp add: endpointText_def entryOf_def)

lemma setting_data:
  "vpnData (WireGuardSettingWidget_setting K d) =
     (let data =
        setProperty
          (setProperty
            (setProperty
              (setProperty
                (setProperty (vpnData (setting d)) (NM_WG_KEY_ADDR_IP4 K) (addressIPv4 d))
                (NM_WG_KEY_ADDR_IP6 K) (addressIPv6 d))
              (NM_WG_KEY_PRIVATE_KEY K) (contents (privateKeyLineEdit (ui d))))
            (NM_WG_KEY_PUBLIC_KEY K) (displayText (publicKeyLineEdit (ui d))))
          (NM_WG_KEY_ALLOWED_IPS K) (displayText (allowedIPsLineEdit (ui d)))
      in if endpointAddress d \<noteq> [] then setProperty data (NM_WG_KEY_ENDPOINT K) (endpointText d)
         else data)"
  by (simp add: WireGuardSettingWidget_setting_def Let_def endpointText_def isEmpty_def)

lemma setting_lookup:
  "vpnData (WireGuardSettingWidget_setting K d) k =
     (if k = NM_WG_KEY_ENDPOINT K \<and> endpointAddress d \<noteq> [] then Some (endpointText d)
      else if k = NM_WG_KEY_ALLOWED_IPS K then entryOf (displayText (allowedIPsLineEdit (ui d)))
      else if k = NM_WG_KEY_PUBLIC_KEY K then entryOf (displayText (publicKeyLineEdit (ui d)))
      else if k = NM_WG_KEY_PRIVATE_KEY K then entryOf (contents (privateKeyLineEdit (ui d)))
      else if k = NM_WG_KEY_ADDR_IP6 K then entryOf (addressIPv6 d)
      else if k = NM_WG_KEY_ADDR_IP4 K then entryOf (addressIPv4 d)
      else vpnData (setting d) k)"
  unfolding setting_data Let_def
  by (simp add: setProperty_lookup endpointText_nonempty)

text \<open>
  C10. For each of the five data keys (IPv4 address, IPv6 address, private key, public
  key, allowed IPs), the data map of the setting that \<open>setting()\<close> returns contains the
  key with the current text of its field when the text is not empty, and does not
  contain the key when the text is empty. Every entry under another key, the endpoint
  entry apart, is as in the stored setting. The six keys are macros of a header outside
  this source; they are taken to be pairwise distinct.
\<close>

theorem setting_data_entries:
  assumes "distinct (dataKeys K @ [NM_WG_KEY_ENDPOINT K])"
  shows "vpnData (WireGuardSettingWidget_setting K d) (NM_WG_KEY_ADDR_IP4 K) = entryOf (addressIPv4 d)
    \<and> vpnData (WireGuardSettingWidget_setting K d) (NM_WG_KEY_ADDR_IP6 K) = entryOf (addressIPv6 d)
    \<and> vpnData (WireGuardSettingWidget_setting K d) (NM_WG_KEY_PRIVATE_KEY K)
        = entryOf (contents (privateKeyLineEdit (ui d)))
    \<and> vpnData (WireGuardSettingWidget_setting K d) (NM_WG_KEY_PUBLIC_KEY K)
        = entryOf (displayText (publicKeyLineEdit (ui d)))
    \<and> vpnData (WireGuardSettingWidget_setting K d) (NM_WG_KEY_ALLOWED_IPS K)
        = entryOf (displayText (allowedIPsLineEdit (ui d)))
    \<and> (\<forall>k. k \<notin> set (dataKeys K) \<and> k \<noteq> NM_WG_KEY_ENDPOINT K
          \<longrightarrow> vpnData (WireGuardSettingWidget_setting K d) k = vpnData (setting d) k)"
  using assms by (simp add: setting_lookup dataKeys_def)

text \<open>
  A widget with an IPv4 address and no IPv6 address, over a stored setting that has an
  IPv6 address and a listen port: the IPv4 address is written, the stale IPv6 address is
  removed, the listen port is kept.
\<close>

theorem setting_data_entries_witness:
  "vpnData (WireGuardSettingWidget_setting sampleKeys
       (sampleWidget ''10.0.0.2/24'' [] [] []
          [''local-ip6'' \<mapsto> ''fd00::2/64'', ''local-listen-port'' \<mapsto> ''51820'']))
      ''local-ip4'' = Some ''10.0.0.2/24''
   \<and> vpnData (WireGuardSettingWidget_setting sampleKeys
       (sampleWidget ''10.0.0.2/24'' [] [] []
          [''local-ip6'' \<mapsto> ''fd00::2/64'', ''local-listen-port'' \<mapsto> ''51820'']))
      ''local-ip6'' = None
   \<and> vpnData (WireGuardSettingWidget_setting sampleKeys
       (sampleWidget ''10.0.0.2/24'' [] [] []
          [''local-ip6'' \<mapsto> ''fd00::2/64'', ''local-listen-port'' \<mapsto> ''51820'']))
      ''local-listen-port'' = Some ''51820''"
proof -
  have keys: "distinct (dataKeys sampleKeys @ [NM_WG_KEY_ENDPOINT sampleKeys])"
    by (simp add: dataKeys_def sampleKeys_def)
  show ?thesis
    using setting_data_entries [OF keys, of "sampleWidget ''10.0.0.2/24'' [] [] []
          [''local-ip6'' \<mapsto> ''fd00::2/64'', ''local-listen-port'' \<mapsto> ''51820'']"]
    by (simp add: sampleKeys_def sampleWidget_def lineEdit_def displayText_def entryOf_def dataKeys_def)
qed

section \<open>Properties of main\<close>

text \<open>
  C4. \<open>main\<close> takes an optional positional UUID argument: with at least one positional
  argument it calls \<open>editConnection\<close> with the first argument and does not call
  \<open>show\<close> on the editor; with no positional argument it calls \<open>show\<close> and does not
  call \<open>editConnection\<close>.
\<close>

theorem main_edits_or_shows:
  "(args \<noteq> [] \<longrightarrow> fst (main args app_exec) = [editConnection (hd args)]
        \<and> showEditor \<notin> set (fst (main args app_exec)))
   \<and> (args = [] \<longrightarrow> fst (main args app_exec) = [showEditor]
        \<and> (\<forall>uuid. editConnection uuid \<notin> set (fst (main args app_exec))))"
  by (cases args) (simp_all add: main_def)

theorem main_edits_or_shows_witness:
  "fst (main [''f81d4fae-7dec-11d0-a765-00a0c91e6bf6''] 0)
     = [editConnection ''f81d4fae-7dec-11d0-a765-00a0c91e6bf6'']
   \<and> fst (main [''a'', ''b''] 0) = [editConnection ''a'']
   \<and> fst (main [] 0) = [showEditor]"
  using main_edits_or_shows [of "[''f81d4fae-7dec-11d0-a765-00a0c91e6bf6'']" 0]
    main_edits_or_shows [of "[''a'', ''b'']" 0]
    main_edits_or_shows [of "[]" 0]
  by simp

section \<open>Properties of the network model\<close>

text \<open>
  Every pass of the loop starts with \<open>nonVirtualDevice\<close> false, and appends the items
  of the device.
\<close>

lemma addDevices_items:
  "addDevices devices False item items
     = (False,
        (if \<exists>device \<in> set devices. isNonVirtual device then None else item),
        items @ concat (map itemsOf devices))"
proof (induction devices arbitrary: item items)
  case Nil
  then show ?case by simp
next
  case (Cons device devices)
  show ?case
    by (cases "deviceType device") (simp_all add: Cons isNonVirtual_def itemsOf_def)
qed

lemma length_itemsOf: "length (itemsOf device) = (if isNonVirtual device then 1 else 0)"
  by (cases "deviceType device") (simp_all add: itemsOf_def isNonVirtual_def)

lemma length_concat_itemsOf:
  "length (concat (map itemsOf devices)) = length (filter isNonVirtual devices)"
  by (induction devices) (simp_all add: length_itemsOf)

lemma NetworkModel_new_items:
  "m_networkItems (NetworkModel_new devices) = concat (map itemsOf devices) @ [vpnItem]"
  by (simp add: NetworkModel_new_def addDevices_items vpnItem_def)

lemma calls_unchanged: "calls itemName itemIcon m cs = m"
  by (induction cs arbitrary: m) (simp_all add: call_def split: model_call.splits)

text \<open>
  C5. The item list of the model is fixed at construction, and no operation of the model
  changes it afterwards: after any sequence of calls it holds, in the order of the
  enumeration, one item for each Ethernet, modem or Wi-Fi device (a device of another
  type contributes none), followed by one VPN item as the last element. So for every list
  of devices \<open>count()\<close> and \<open>rowCount()\<close> both are the number of Ethernet, modem and
  Wi-Fi devices plus one, and at least one.
\<close>

theorem networkModel_items_fixed:
  "m_networkItems (calls itemName itemIcon (NetworkModel_new devices) cs)
     = concat (map itemsOf devices) @ [vpnItem]
   \<and> (\<forall>device. length (itemsOf device) = (if isNonVirtual device then 1 else 0))
   \<and> last (m_networkItems (calls itemName itemIcon (NetworkModel_new devices) cs)) = vpnItem
   \<and> count (calls itemName itemIcon (NetworkModel_new devices) cs)
       = int (length (filter isNonVirtual devices)) + 1
   \<and> rowCount (calls itemName itemIcon (NetworkModel_new devices) cs)
       = int (length (filter isNonVirtual devices)) + 1
   \<and> 1 \<le> count (calls itemName itemIcon (NetworkModel_new devices) cs)
   \<and> 1 \<le> rowCount (calls itemName itemIcon (NetworkModel_new devices) cs)"
  by (simp add: calls_unchanged NetworkModel_new_items length_itemsOf length_concat_itemsOf
      count_def rowCount_def)

theorem networkModel_items_fixed_witness:
  "m_networkItems (calls (\<lambda>i. []) (\<lambda>i. []) (NetworkModel_new sampleDevices) [Call_data 0 PathRole, Call_count])
     = [Some \<lparr>itemType = Item_Wifi, itemPath = ''/org/freedesktop/NetworkManager/Devices/1''\<rparr>,
        Some \<lparr>itemType = Item_Ethernet, itemPath = ''/org/freedesktop/NetworkManager/Devices/2''\<rparr>,
        Some \<lparr>itemType = Item_Vpn, itemPath = []\<rparr>]
   \<and> count (calls (\<lambda>i. []) (\<lambda>i. []) (NetworkModel_new sampleDevices) [Call_data 0 PathRole, Call_count]) = 3
   \<and> rowCount (calls (\<lambda>i. []) (\<lambda>i. []) (NetworkModel_new []) []) = 1"
  using networkModel_items_fixed [of "\<lambda>i. []" "\<lambda>i. []" sampleDevices "[Call_data 0 PathRole, Call_count]"]
    networkModel_items_fixed [of "\<lambda>i. []" "\<lambda>i. []" "[]" "[]"]
  by (simp add: sampleDevices_def itemsOf_def vpnItem_def isNonVirtual_def)

section \<open>Properties of the bridge widget\<close>

subsection \<open>Loading and saving the setting\<close>







text \<open>
  Whatever range a spin box has, short of all of \<open>int\<close>, some number of a setting is
  outside it: the least \<open>int\<close> (the number \<open>2 ^ 31\<close> of a setting) or the
  greatest.
\<close>

lemma admits_least: "admits sb (2 ^ 31) \<Longrightarrow> minimum sb = 2 ^ 31"
proof -
  assume "admits sb (2 ^ 31)"
  then have "sint (minimum sb) \<le> sint (2 ^ 31 :: 32 word)"
    by (simp add: admits_def word_sle_eq)
  moreover have "sint (2 ^ 31 :: 32 word) = - (2 ^ 31)"
    by simp
  moreover have "- (2 ^ 31) \<le> sint (minimum sb)"
    using sint_ge [of "minimum sb"] by simp
  ultimately have "sint (minimum sb) = sint (2 ^ 31 :: 32 word)"
    by simp
  then show ?thesis
    by (rule signed_word_eqI)
qed

lemma admits_greatest: "admits sb (2 ^ 31 - 1) \<Longrightarrow> maximum sb = 2 ^ 31 - 1"
proof -
  assume "admits sb (2 ^ 31 - 1)"
  then have "sint (2 ^ 31 - 1 :: 32 word) \<le> sint (maximum sb)"
    by (simp add: admits_def word_sle_eq)
  moreover have "sint (2 ^ 31 - 1 :: 32 word) = 2 ^ 31 - 1"
    by simp
  moreover have "sint (maximum sb) < 2 ^ 31"
    using sint_lt [of "maximum sb"] by simp
  ultimately have "sint (maximum sb) = sint (2 ^ 31 - 1 :: 32 word)"
    by simp
  then show ?thesis
    by (rule signed_word_eqI)
qed




subsection \<open>The list of slaves\<close>

lemma addSlaves_filter:
  "addSlaves mkLabel w connections bridges
     = bridges @ map (\<lambda>c. \<lparr>label = mkLabel (connectionName c) (connectionType c), userData = connectionUuid c\<rparr>)
         (filter (isSlaveOf w) connections)"
  by (induction connections arbitrary: bridges) (simp_all add: isSlaveOf_def isEmpty_def Let_def)

lemma isSlaveOf_m_ui: "isSlaveOf (w\<lparr>m_ui := u\<rparr>) = isSlaveOf w"
  by (rule ext) (simp add: isSlaveOf_def)

text \<open>
  C7. \<open>populateBridges\<close> lists exactly the connections that are slaves of this bridge,
  in the order of the enumeration and whatever the list held before: a connection is
  listed if and only if its master is the UUID of the widget, or the id of the widget is
  not empty and its master is that id, and in addition its slave type is the type of the
  widget. Each item listed carries the UUID of its connection as user data.
\<close>

theorem populateBridges_lists_slaves:
  "ui_bridges (m_ui (populateBridges mkLabel listConnections w))
     = map (\<lambda>c. \<lparr>label = mkLabel (connectionName c) (connectionType c), userData = connectionUuid c\<rparr>)
         (filter (isSlaveOf w) listConnections)
   \<and> map userData (ui_bridges (m_ui (populateBridges mkLabel listConnections w)))
     = map connectionUuid (filter (isSlaveOf w) listConnections)
   \<and> (\<forall>c. isSlaveOf w c \<longleftrightarrow>
        (master c = m_uuid w \<or> (m_id w \<noteq> [] \<and> master c = m_id w)) \<and> slaveType c = widgetType w)"
proof -
  have "ui_bridges (m_ui (populateBridges mkLabel listConnections w))
     = map (\<lambda>c. \<lparr>label = mkLabel (connectionName c) (connectionType c), userData = connectionUuid c\<rparr>)
         (filter (isSlaveOf w) listConnections)"
    by (simp add: populateBridges_def addSlaves_filter isSlaveOf_m_ui)
  then show ?thesis
    by (simp add: isSlaveOf_def comp_def)
qed

text \<open>
  Four connections, two of them slaves (one by UUID, one by name); the list held one
  item before.
\<close>

theorem populateBridges_lists_slaves_witness:
  "map userData (ui_bridges (m_ui (populateBridges (\<lambda>n t. n) 
      [sampleConnection ''uuid-1'' ''uuid-0'' ''bridge'',
       sampleConnection ''uuid-2'' ''uuid-9'' ''bridge'',
       sampleConnection ''uuid-3'' ''br0'' ''bridge'',
       sampleConnection ''uuid-4'' ''uuid-0'' ''bond'']
      (sampleBridgeWidget ''br0'' [\<lparr>label = ''old'', userData = ''uuid-7''\<rparr>]))))
   = [''uuid-1'', ''uuid-3'']"
  using populateBridges_lists_slaves [of "\<lambda>n t. n"
      "[sampleConnection ''uuid-1'' ''uuid-0'' ''bridge'',
       sampleConnection ''uuid-2'' ''uuid-9'' ''bridge'',
       sampleConnection ''uuid-3'' ''br0'' ''bridge'',
       sampleConnection ''uuid-4'' ''uuid-0'' ''bond'']"
      "sampleBridgeWidget ''br0'' [\<lparr>label = ''old'', userData = ''uuid-7''\<rparr>]"]
  by (simp add: sampleConnection_def sampleBridgeWidget_def isSlaveOf_def)

subsection \<open>Validity\<close>

text \<open>
  C8. \<open>BridgeWidget::isValid\<close> returns true if and only if the interface name is not
  empty and the list of bridges has at least one item; an empty interface name or an
  empty list makes the widget invalid.
\<close>

theorem BridgeWidget_isValid_iff:
  "(BridgeWidget_isValid w \<longleftrightarrow>
      contents (ui_ifaceName (m_ui w)) \<noteq> [] \<and> 1 \<le> length (ui_bridges (m_ui w)))
   \<and> (contents (ui_ifaceName (m_ui w)) = [] \<or> ui_bridges (m_ui w) = []
        \<longrightarrow> \<not> BridgeWidget_isValid w)"
  by (cases "ui_bridges (m_ui w)") (auto simp add: BridgeWidget_isValid_def isEmpty_def)

theorem BridgeWidget_isValid_iff_witness:
  "BridgeWidget_isValid (sampleBridgeWidget ''br0'' [\<lparr>label = ''port (Ethernet)'', userData = ''uuid-1''\<rparr>])
   \<and> \<not> BridgeWidget_isValid (sampleBridgeWidget [] [\<lparr>label = ''port (Ethernet)'', userData = ''uuid-1''\<rparr>])
   \<and> \<not> BridgeWidget_isValid (sampleBridgeWidget ''br0'' [])"
  using BridgeWidget_isValid_iff [of "sampleBridgeWidget ''br0'' [\<lparr>label = ''port (Ethernet)'', userData = ''uuid-1''\<rparr>]"]
    BridgeWidget_isValid_iff [of "sampleBridgeWidget [] [\<lparr>label = ''port (Ethernet)'', userData = ''uuid-1''\<rparr>]"]
    BridgeWidget_isValid_iff [of "sampleBridgeWidget ''br0'' []"]
  by (simp add: sampleBridgeWidget_def lineEdit_def)

end
